theory Spec2Isabelle
  imports Main
begin

section \<open>Python values, objects and exceptions\<close>

text \<open>
  The decorators of \<^verbatim>\<open>flask_accepts/decorators/decorators.py\<close> are glue code over Python
  values: dictionaries of argument specifications, exception objects that may carry a
  \<^verbatim>\<open>data\<close> attribute, handler return values, and objects that are mutated in place.

  Plain data is a value of \<open>pyval\<close>. A dictionary is an association list in insertion
  order with distinct keys. An instance of a user class (a carrier object, a framework
  response) lives in a heap and is referred to by its address, so that "the same object"
  and "mutated in place" can be stated.
\<close>

type_synonym addr = nat

datatype pyval =
    PNone
  | PBool bool
  | PInt int
  | PStr string
  | PList "pyval list"
  | PDict "(pyval \<times> pyval) list"
  | PRef addr

text \<open>
  A heap object: the names of the classes in the method resolution order of its type
  (what \<^verbatim>\<open>isinstance\<close> consults) and its instance attributes.
\<close>

record pyobj =
  obj_mro :: "string list"
  obj_attrs :: "(string \<times> pyval) list"

text \<open>
  An exception object: its class, its constructor arguments, the \<^verbatim>\<open>data\<close>
  attribute when it has one (\<open>None\<close> is \<^verbatim>\<open>not hasattr(error, "data")\<close>), and what
  truth value testing answers for it (true, unless its class defines \<^verbatim>\<open>__bool__\<close> or
  \<^verbatim>\<open>__len__\<close> to say otherwise). The messages
  of exceptions raised by the interpreter itself are not modelled: their arguments are
  left empty, except for \<^verbatim>\<open>KeyError\<close>, whose argument is the missing key.
\<close>

record exn =
  exc_class :: string
  exc_args :: "pyval list"
  exc_data :: "pyval option"
  exc_bool :: bool

definition raised :: "string \<Rightarrow> pyval list \<Rightarrow> exn" where
  "raised c as = \<lparr>exc_class = c, exc_args = as, exc_data = None, exc_bool = True\<rparr>"

definition TypeError :: exn where
  "TypeError = raised ''TypeError'' []"

definition AttributeError :: exn where
  "AttributeError = raised ''AttributeError'' []"

definition ImportError :: exn where
  "ImportError = raised ''ImportError'' []"

definition KeyError :: "pyval \<Rightarrow> exn" where
  "KeyError k = raised ''KeyError'' [k]"

text \<open>Truth value testing, as \<^verbatim>\<open>if err:\<close> performs it.\<close>

fun truthy :: "pyval \<Rightarrow> bool" where
  "truthy PNone = False"
| "truthy (PBool b) = b"
| "truthy (PInt i) = (i \<noteq> 0)"
| "truthy (PStr s) = (s \<noteq> [])"
| "truthy (PList xs) = (xs \<noteq> [])"
| "truthy (PDict kvs) = (kvs \<noteq> [])"
| "truthy (PRef a) = True"

fun is_dict :: "pyval \<Rightarrow> bool" where
  "is_dict (PDict kvs) = True"
| "is_dict v = False"

fun is_str :: "pyval \<Rightarrow> bool" where
  "is_str (PStr s) = True"
| "is_str v = False"

subsection \<open>Dictionaries\<close>

text \<open>\<^verbatim>\<open>d[k] = v\<close>: an existing key keeps its position, a new key goes last.\<close>

fun dict_setitem :: "(pyval \<times> pyval) list \<Rightarrow> pyval \<Rightarrow> pyval \<Rightarrow> (pyval \<times> pyval) list" where
  "dict_setitem [] k v = [(k, v)]"
| "dict_setitem ((k', v') # kvs) k v =
     (if k' = k then (k', v) # kvs else (k', v') # dict_setitem kvs k v)"

text \<open>
  \<^verbatim>\<open>x[name]\<close> for a string key: a dictionary without the key raises \<^verbatim>\<open>KeyError\<close>;
  a string, a list, a number, \<^verbatim>\<open>None\<close> and a plain object raise \<^verbatim>\<open>TypeError\<close>.
\<close>

fun getitem_str :: "pyval \<Rightarrow> string \<Rightarrow> exn + pyval" where
  "getitem_str (PDict kvs) name =
     (case map_of kvs (PStr name) of
        None \<Rightarrow> Inl (KeyError (PStr name))
      | Some v \<Rightarrow> Inr v)"
| "getitem_str v name = Inl TypeError"

text \<open>
  \<^verbatim>\<open>x.update({name: v})\<close>: only a dictionary has the method; on any other value of
  \<open>pyval\<close> the attribute lookup raises \<^verbatim>\<open>AttributeError\<close>.
\<close>

fun update_method :: "pyval \<Rightarrow> string \<Rightarrow> pyval \<Rightarrow> exn + pyval" where
  "update_method (PDict kvs) name v = Inr (PDict (dict_setitem kvs (PStr name) v))"
| "update_method x name v = Inl AttributeError"

text \<open>
  The dictionary \<^verbatim>\<open>d[name]\<close> is updated in place; in a model of values the outer
  dictionary is rebuilt with the updated inner one under the same key.
\<close>

fun store_item :: "pyval \<Rightarrow> string \<Rightarrow> pyval \<Rightarrow> pyval" where
  "store_item (PDict kvs) name v = PDict (dict_setitem kvs (PStr name) v)"
| "store_item x name v = x"

subsection \<open>Objects in the heap\<close>

definition type_mro :: "pyobj list \<Rightarrow> pyval \<Rightarrow> string list" where
  "type_mro h v =
     (case v of
        PNone \<Rightarrow> [''NoneType'', ''object'']
      | PBool b \<Rightarrow> [''bool'', ''int'', ''object'']
      | PInt i \<Rightarrow> [''int'', ''object'']
      | PStr s \<Rightarrow> [''str'', ''object'']
      | PList xs \<Rightarrow> [''list'', ''object'']
      | PDict kvs \<Rightarrow> [''dict'', ''object'']
      | PRef a \<Rightarrow> (if a < length h then obj_mro (h ! a) else []))"

definition isinstance :: "pyobj list \<Rightarrow> pyval \<Rightarrow> string \<Rightarrow> bool" where
  "isinstance h v c = (c \<in> set (type_mro h v))"

fun attr_store :: "(string \<times> pyval) list \<Rightarrow> string \<Rightarrow> pyval \<Rightarrow> (string \<times> pyval) list" where
  "attr_store [] name v = [(name, v)]"
| "attr_store ((n, x) # as) name v =
     (if n = name then (n, v) # as else (n, x) # attr_store as name v)"

text \<open>
  \<^verbatim>\<open>rv.name\<close> and \<^verbatim>\<open>rv.name = x\<close> on instance attributes. The values of the built-in
  types have no attribute \<^verbatim>\<open>value\<close> and accept no new attribute.
\<close>

definition getattr :: "pyobj list \<Rightarrow> pyval \<Rightarrow> string \<Rightarrow> exn + pyval" where
  "getattr h v name =
     (case v of
        PRef a \<Rightarrow>
          (if a < length h then
             (case map_of (obj_attrs (h ! a)) name of
                Some x \<Rightarrow> Inr x
              | None \<Rightarrow> Inl AttributeError)
           else Inl AttributeError)
      | _ \<Rightarrow> Inl AttributeError)"

definition setattr :: "pyobj list \<Rightarrow> pyval \<Rightarrow> string \<Rightarrow> pyval \<Rightarrow> exn + pyobj list" where
  "setattr h v name x =
     (case v of
        PRef a \<Rightarrow>
          (if a < length h then
             Inr (h[a := (h ! a)\<lparr>obj_attrs := attr_store (obj_attrs (h ! a)) name x\<rparr>])
           else Inl AttributeError)
      | _ \<Rightarrow> Inl AttributeError)"

section \<open>The collaborators\<close>

text \<open>
  The state one invocation works on: the two request-scoped attributes
  (\<^verbatim>\<open>request.parsed_args\<close>, \<^verbatim>\<open>request.parsed_obj\<close>; \<open>None\<close> while unset), what
  \<^verbatim>\<open>request.get_json()\<close> does on this request (it returns the decoded JSON body, or
  raises, as the framework does on a malformed body), the heap, and the calls made so
  far, in order, to the parser, to a schema and to \<^verbatim>\<open>jsonify\<close>.
\<close>

datatype event =
    EvParseArgs
  | EvLoad bool pyval
  | EvDump bool pyval
  | EvJsonify pyval

record world =
  parsed_args :: "pyval option"
  parsed_obj :: "pyval option"
  json_body :: "exn + pyval"
  heap :: "pyobj list"
  events :: "event list"

text \<open>
  A schema class, by what \<^verbatim>\<open>schema(many=many).load(x)\<close> and
  \<^verbatim>\<open>schema(many=many).dump(x)\<close> answer. \<open>load\<close> returns the pair (object, errors) or
  raises; \<open>dump\<close> returns the pair (data, errors) or raises. Either can report a
  failure through the second component of the pair it returns.
\<close>

record schema =
  load :: "bool \<Rightarrow> pyval \<Rightarrow> exn + pyval \<times> pyval"
  dump :: "bool \<Rightarrow> pyval \<Rightarrow> exn + pyval \<times> pyval"

text \<open>
  A handler: the parameter names of its signature, in declaration order, and what a
  call does to the state (it returns a value or raises).
\<close>

record handler =
  parameters :: "string list"
  call :: "world \<Rightarrow> (exn + pyval) \<times> world"

text \<open>
  A request parser is the list of keyword dictionaries it was given through
  \<^verbatim>\<open>add_argument\<close>. An \<open>api\<close> object is what its \<^verbatim>\<open>parser()\<close> factory returns.
\<close>

record parser =
  bundle_errors :: bool
  parser_args :: "(pyval \<times> pyval) list list"

record api =
  api_parser :: parser

section \<open>The Method Detector\<close>

text \<open>
  \<^verbatim>\<open>
  def _is_method(func):
      sig = inspect.signature(func)
      return "self" in sig.parameters
  \<close>
\<close>

definition is_method :: "handler \<Rightarrow> bool" where
  "is_method func = (''self'' \<in> set (parameters func))"

text \<open>The contract in the words of the specification: the first parameter is \<^verbatim>\<open>self\<close>.\<close>

definition spec_first_parameter_is_self :: "handler \<Rightarrow> bool" where
  "spec_first_parameter_is_self func =
     (case parameters func of [] \<Rightarrow> False | p # ps \<Rightarrow> p = ''self'')"

section \<open>The Request Decorator\<close>

subsection \<open>Decoration time\<close>

text \<open>
  \<^verbatim>\<open>_parser.add_argument(**qp, location="values")\<close>: the call itself raises
  \<^verbatim>\<open>TypeError\<close> when \<^verbatim>\<open>qp\<close> is not a mapping, when one of its keys is not a string,
  and when it has the key \<^verbatim>\<open>location\<close> already. Otherwise the parser records the
  keywords; what the library makes of them is not modelled.
\<close>

definition with_location :: "(pyval \<times> pyval) list \<Rightarrow> (pyval \<times> pyval) list" where
  "with_location kvs = kvs @ [(PStr ''location'', PStr ''values'')]"

definition dict_items :: "pyval \<Rightarrow> (pyval \<times> pyval) list" where
  "dict_items v = (case v of PDict kvs \<Rightarrow> kvs | _ \<Rightarrow> [])"

fun add_argument :: "pyval \<Rightarrow> parser \<Rightarrow> exn + parser" where
  "add_argument (PDict kvs) p =
     (if list_ex (\<lambda>k. \<not> is_str k) (map fst kvs) then Inl TypeError
      else if PStr ''location'' \<in> set (map fst kvs) then Inl TypeError
      else Inr (p\<lparr>parser_args := parser_args p @ [with_location kvs]\<rparr>))"
| "add_argument v p = Inl TypeError"

fun add_arguments :: "pyval list \<Rightarrow> parser \<Rightarrow> exn + parser" where
  "add_arguments [] p = Inr p"
| "add_arguments (qp # qps) p =
     (case add_argument qp p of
        Inl e \<Rightarrow> Inl e
      | Inr p' \<Rightarrow> add_arguments qps p')"

definition new_parser :: "api option \<Rightarrow> parser" where
  "new_parser api =
     (case api of
        Some a \<Rightarrow> api_parser a
      | None \<Rightarrow> \<lparr>bundle_errors = True, parser_args = []\<rparr>)"

definition query_params :: "pyval list \<Rightarrow> pyval list" where
  "query_params args = filter is_dict args"

text \<open>
  Lines 26 to 42 of \<^verbatim>\<open>accepts\<close>: the import of \<^verbatim>\<open>reqparse\<close> (from either library, or
  \<^verbatim>\<open>ImportError\<close>), the choice of the parser (an \<open>api\<close> object is true), and the
  registration of the positional arguments that are dictionaries:
  \<^verbatim>\<open>
  query_params = [arg for arg in args if isinstance(arg, dict)]
  for qp in query_params:
      _parser.add_argument(**qp, location="values")
  \<close>
  The registration of documentation, lines 78 to 86, is not modelled.
\<close>

definition accepts_parser :: "bool \<Rightarrow> api option \<Rightarrow> pyval list \<Rightarrow> exn + parser" where
  "accepts_parser reqparse_importable api args =
     (if \<not> reqparse_importable then Inl ImportError
      else add_arguments (query_params args) (new_parser api))"

subsection \<open>Each invocation\<close>

definition ValueError_invalid_parsing :: exn where
  "ValueError_invalid_parsing = raised ''ValueError'' [PStr ''Invalid parsing error.'']"

text \<open>
  Lines 65 to 69:
  \<^verbatim>\<open>
  error = error or ValueError("Invalid parsing error.")
  if hasattr(error, "data"):
      error.data["message"].update({"schema_errors": err})
  else:
      error.data = {"schema_errors": err}
  \<close>
  \<^verbatim>\<open>error or ...\<close> keeps \<^verbatim>\<open>error\<close> when it is an exception object that is true. The
  subscript and the method call can raise.
\<close>

definition attach_schema_errors :: "exn option \<Rightarrow> pyval \<Rightarrow> exn + exn" where
  "attach_schema_errors error err =
     (let error' = (case error of
                      Some e \<Rightarrow> (if exc_bool e then e else ValueError_invalid_parsing)
                    | None \<Rightarrow> ValueError_invalid_parsing)
      in case exc_data error' of
           Some d \<Rightarrow>
             (case getitem_str d ''message'' of
                Inl ex \<Rightarrow> Inl ex
              | Inr m \<Rightarrow>
                  (case update_method m ''schema_errors'' err of
                     Inl ex \<Rightarrow> Inl ex
                   | Inr m' \<Rightarrow> Inr (error'\<lparr>exc_data := Some (store_item d ''message'' m')\<rparr>)))
         | None \<Rightarrow>
             Inr (error'\<lparr>exc_data := Some (PDict [(PStr ''schema_errors'', err)])\<rparr>))"

text \<open>
  Lines 73 to 76:
  \<^verbatim>\<open>
  if error:
      raise (error)
  return func(*args, **kwargs)
  \<close>
\<close>

definition raise_or_call :: "exn option \<Rightarrow> handler \<Rightarrow> world \<Rightarrow> (exn + pyval) \<times> world" where
  "raise_or_call error func w =
     (case error of
        Some e \<Rightarrow> (if exc_bool e then (Inl e, w) else call func w)
      | None \<Rightarrow> call func w)"

text \<open>
  \<^verbatim>\<open>inner\<close> of \<^verbatim>\<open>accepts\<close>, lines 51 to 76. \<open>parse_args\<close> is
  \<^verbatim>\<open>_parser.parse_args\<close>: it reads the current request and returns the parsed arguments
  or raises, and \<^verbatim>\<open>except Exception\<close> catches what it raises. A schema class is true.
  Line 63,
  \<^verbatim>\<open>
  obj, err = schema(many=many).load(request.get_json())
  \<close>
  is outside the \<^verbatim>\<open>try\<close>: what \<^verbatim>\<open>request.get_json()\<close> or \<^verbatim>\<open>load\<close> raises ends the
  invocation there, and \<^verbatim>\<open>load\<close> is called only when \<^verbatim>\<open>request.get_json()\<close> has
  returned.
\<close>

definition accepts_inner ::
  "(world \<Rightarrow> exn + pyval) \<Rightarrow> schema option \<Rightarrow> bool \<Rightarrow> handler \<Rightarrow> world
     \<Rightarrow> (exn + pyval) \<times> world" where
  "accepts_inner parse_args schema many func w0 =
     (let w1 = w0\<lparr>events := events w0 @ [EvParseArgs]\<rparr>;
          error = (case parse_args w0 of Inr a \<Rightarrow> None | Inl e \<Rightarrow> Some e);
          w2 = (case parse_args w0 of Inr a \<Rightarrow> w1\<lparr>parsed_args := Some a\<rparr> | Inl e \<Rightarrow> w1)
      in case schema of
           None \<Rightarrow> raise_or_call error func w2
         | Some s \<Rightarrow>
             (case json_body w2 of
                Inl ex \<Rightarrow> (Inl ex, w2)
              | Inr body \<Rightarrow>
                  (let w3 = w2\<lparr>events := events w2 @ [EvLoad many body]\<rparr>
                   in case load s many body of
                        Inl ex \<Rightarrow> (Inl ex, w3)
                      | Inr res \<Rightarrow>
                          (let obj = fst res; err = snd res
                           in if truthy err then
                                (case attach_schema_errors error err of
                                   Inl ex \<Rightarrow> (Inl ex, w3)
                                 | Inr error' \<Rightarrow>
                                     raise_or_call (Some error') func
                                       (w3\<lparr>parsed_obj := Some obj\<rparr>))
                              else raise_or_call error func (w3\<lparr>parsed_obj := Some obj\<rparr>)))))"

section \<open>The Response Decorator\<close>

definition Response :: string where
  "Response = ''werkzeug.wrappers.Response''"

text \<open>
  \<^verbatim>\<open>jsonify(serialized)\<close> builds a new response object of the framework's response
  class, a subclass of \<^verbatim>\<open>werkzeug.wrappers.Response\<close>, with the payload as its JSON
  body and the default status. The payload is what a schema dumped, and \<^verbatim>\<open>jsonify\<close> is
  taken to accept it.
\<close>

definition json_response :: "pyval \<Rightarrow> pyobj" where
  "json_response v =
     \<lparr>obj_mro = [''flask.wrappers.Response'', Response, ''object''],
      obj_attrs = [(''json'', v), (''status_code'', PInt 200),
                   (''mimetype'', PStr ''application/json'')]\<rparr>"

definition jsonify :: "pyval \<Rightarrow> world \<Rightarrow> (exn + pyval) \<times> world" where
  "jsonify v w =
     (Inr (PRef (length (heap w))),
      w\<lparr>heap := heap w @ [json_response v], events := events w @ [EvJsonify v]\<rparr>)"

text \<open>
  Lines 125 to 127, the carrier branch:
  \<^verbatim>\<open>
  rv.value = schema(many=many).dump(rv.value).data
  return rv
  \<close>
  Calling \<^verbatim>\<open>schema\<close> when it is \<^verbatim>\<open>None\<close> raises \<^verbatim>\<open>TypeError\<close>.
\<close>

definition dump_carrier :: "schema option \<Rightarrow> bool \<Rightarrow> pyval \<Rightarrow> world \<Rightarrow> (exn + pyval) \<times> world" where
  "dump_carrier schema many rv w =
     (case schema of
        None \<Rightarrow> (Inl TypeError, w)
      | Some s \<Rightarrow>
          (case getattr (heap w) rv ''value'' of
             Inl ex \<Rightarrow> (Inl ex, w)
           | Inr v \<Rightarrow>
               (let w' = w\<lparr>events := events w @ [EvDump many v]\<rparr>
                in case dump s many v of
                     Inl ex \<Rightarrow> (Inl ex, w')
                   | Inr res \<Rightarrow>
                       (case setattr (heap w') rv ''value'' (fst res) of
                          Inl ex \<Rightarrow> (Inl ex, w')
                        | Inr h' \<Rightarrow> (Inr rv, w'\<lparr>heap := h'\<rparr>)))))"

text \<open>
  Lines 128 to 132, the plain branch:
  \<^verbatim>\<open>
  serialized = schema(many=many).dump(rv).data
  if not _is_method(func):
      return jsonify(serialized)
  return serialized
  \<close>
\<close>

definition dump_plain :: "schema option \<Rightarrow> bool \<Rightarrow> handler \<Rightarrow> pyval \<Rightarrow> world \<Rightarrow> (exn + pyval) \<times> world" where
  "dump_plain schema many func rv w =
     (case schema of
        None \<Rightarrow> (Inl TypeError, w)
      | Some s \<Rightarrow>
          (let w' = w\<lparr>events := events w @ [EvDump many rv]\<rparr>
           in case dump s many rv of
                Inl ex \<Rightarrow> (Inl ex, w')
              | Inr res \<Rightarrow>
                  (if \<not> is_method func then jsonify (fst res) w'
                   else (Inr (fst res), w'))))"

text \<open>
  \<^verbatim>\<open>wrapper is not None and isinstance(rv, wrapper) == True\<close>; a carrier type is given by
  the name of its class.
\<close>

definition is_carrier :: "string option \<Rightarrow> pyobj list \<Rightarrow> pyval \<Rightarrow> bool" where
  "is_carrier wrapper h rv =
     (case wrapper of None \<Rightarrow> False | Some c \<Rightarrow> isinstance h rv c)"

text \<open>\<^verbatim>\<open>inner\<close> of \<^verbatim>\<open>responds\<close>, lines 118 to 132.\<close>

definition responds_inner ::
  "schema option \<Rightarrow> bool \<Rightarrow> string option \<Rightarrow> handler \<Rightarrow> world \<Rightarrow> (exn + pyval) \<times> world" where
  "responds_inner schema many wrapper func w0 =
     (case fst (call func w0) of
        Inl ex \<Rightarrow> (Inl ex, snd (call func w0))
      | Inr rv \<Rightarrow>
          (let w1 = snd (call func w0)
           in if isinstance (heap w1) rv Response then (Inr rv, w1)
              else if is_carrier wrapper (heap w1) rv then dump_carrier schema many rv w1
              else dump_plain schema many func rv w1))"

section \<open>Example inputs\<close>

text \<open>
  The argument-parsing error in the two shapes the parser libraries give it. Both are a
  \<^verbatim>\<open>BadRequest\<close> with a \<^verbatim>\<open>data\<close> attribute. \<^verbatim>\<open>flask_restful\<close> (with bundled errors)
  puts the dictionary of messages per argument under \<^verbatim>\<open>message\<close>; \<^verbatim>\<open>flask_restplus\<close>,
  the library \<^verbatim>\<open>accepts\<close> tries to import first, puts a fixed string under \<^verbatim>\<open>message\<close>
  and the dictionary under \<^verbatim>\<open>errors\<close>.
\<close>

definition restful_error :: exn where
  "restful_error =
     \<lparr>exc_class = ''BadRequest'', exc_args = [],
      exc_data = Some (PDict [(PStr ''message'',
                               PDict [(PStr ''foo'', PStr ''A required foo'')])]),
      exc_bool = True\<rparr>"

definition restplus_error :: exn where
  "restplus_error =
     \<lparr>exc_class = ''BadRequest'', exc_args = [],
      exc_data = Some (PDict [(PStr ''errors'',
                               PDict [(PStr ''foo'', PStr ''A required foo'')]),
                              (PStr ''message'', PStr ''Input payload validation failed'')]),
      exc_bool = True\<rparr>"

definition parse_foo :: "world \<Rightarrow> exn + pyval" where
  "parse_foo w = Inr (PDict [(PStr ''foo'', PInt 3)])"

definition parse_fails_restful :: "world \<Rightarrow> exn + pyval" where
  "parse_fails_restful w = Inl restful_error"

definition parse_fails_restplus :: "world \<Rightarrow> exn + pyval" where
  "parse_fails_restplus w = Inl restplus_error"

text \<open>An error of the parser without a \<^verbatim>\<open>data\<close> attribute.\<close>

definition bare_error :: exn where
  "bare_error = raised ''ValueError'' [PStr ''invalid literal for int()'']"

definition parse_fails_bare :: "world \<Rightarrow> exn + pyval" where
  "parse_fails_bare w = Inl bare_error"

text \<open>
  A schema with one required field \<^verbatim>\<open>name\<close>; it dumps a value as it is. A second one
  whose \<^verbatim>\<open>dump\<close> raises. A third one whose \<^verbatim>\<open>dump\<close> returns, with what it could
  serialize as the data and the field it could not serialize among the errors, and a
  fourth one that returns the same data and no errors. A last one whose \<^verbatim>\<open>load\<close>
  raises.
\<close>

definition name_missing :: pyval where
  "name_missing = PDict [(PStr ''name'', PList [PStr ''Missing data for required field.''])]"

definition name_schema :: schema where
  "name_schema =
     \<lparr>load = (\<lambda>many body.
                case getitem_str body ''name'' of
                  Inr v \<Rightarrow> Inr (body, PDict [])
                | Inl ex \<Rightarrow> Inr (PDict [], name_missing)),
      dump = (\<lambda>many v. Inr (v, PDict []))\<rparr>"

definition dump_failure :: exn where
  "dump_failure = raised ''ValueError'' [PStr ''not serializable'']"

definition raising_schema :: schema where
  "raising_schema =
     \<lparr>load = (\<lambda>many body. Inr (body, PDict [])),
      dump = (\<lambda>many v. Inl dump_failure)\<rparr>"

definition names_only :: pyval where
  "names_only = PList [PDict [(PStr ''name'', PStr ''one'')],
                       PDict [(PStr ''name'', PStr ''two'')]]"

definition id_invalid :: pyval where
  "id_invalid = PDict [(PStr ''id'', PList [PStr ''Not a valid number.''])]"

definition partial_schema :: schema where
  "partial_schema =
     \<lparr>load = (\<lambda>many body. Inr (body, PDict [])),
      dump = (\<lambda>many v. Inr (names_only, id_invalid))\<rparr>"

definition names_schema :: schema where
  "names_schema =
     \<lparr>load = (\<lambda>many body. Inr (body, PDict [])),
      dump = (\<lambda>many v. Inr (names_only, PDict []))\<rparr>"

definition load_failure :: exn where
  "load_failure = raised ''ValidationError'' [name_missing]"

definition strict_schema :: schema where
  "strict_schema =
     \<lparr>load = (\<lambda>many body. Inl load_failure),
      dump = (\<lambda>many v. Inr (v, PDict []))\<rparr>"

text \<open>What \<^verbatim>\<open>request.get_json()\<close> raises on a body that is not JSON.\<close>

definition malformed_json :: exn where
  "malformed_json = raised ''BadRequest'' [PStr ''Failed to decode JSON object'']"

definition empty_request :: world where
  "empty_request =
     \<lparr>parsed_args = None, parsed_obj = None, json_body = Inr (PDict []), heap = [],
      events = []\<rparr>"

definition malformed_request :: world where
  "malformed_request =
     \<lparr>parsed_args = None, parsed_obj = None, json_body = Inl malformed_json, heap = [],
      events = []\<rparr>"

definition named_request :: world where
  "named_request =
     \<lparr>parsed_args = None, parsed_obj = None,
      json_body = Inr (PDict [(PStr ''name'', PStr ''faraday'')]), heap = [], events = []\<rparr>"

text \<open>
  The handler of \<^verbatim>\<open>test_arguments_are_added_to_request\<close>:
  \<^verbatim>\<open>
  def test():
      assert request.parsed_args
      return 'success'
  \<close>
\<close>

definition test_route :: handler where
  "test_route =
     \<lparr>parameters = [],
      call = (\<lambda>w. case parsed_args w of
                     None \<Rightarrow> (Inl AttributeError, w)
                   | Some a \<Rightarrow>
                       (if truthy a then (Inr (PStr ''success''), w)
                        else (Inl (raised ''AssertionError'' []), w)))\<rparr>"

text \<open>
  The handler of \<^verbatim>\<open>test_responds_work_with_wrapper_object\<close>, which returns a new
  \<^verbatim>\<open>Wrapper\<close> around two records, here with the status 201.
\<close>

definition two_records :: pyval where
  "two_records =
     PList [PDict [(PStr ''id'', PInt 1), (PStr ''name'', PStr ''one'')],
            PDict [(PStr ''id'', PInt 2), (PStr ''name'', PStr ''two'')]]"

definition wrapper_route :: handler where
  "wrapper_route =
     \<lparr>parameters = [],
      call = (\<lambda>w. (Inr (PRef (length (heap w))),
                    w\<lparr>heap := heap w @
                         [\<lparr>obj_mro = [''Wrapper'', ''object''],
                           obj_attrs = [(''value'', two_records), (''status'', PInt 201)]\<rparr>]\<rparr>))\<rparr>"

text \<open>The route \<^verbatim>\<open>health\<close> of the fixtures, which returns \<^verbatim>\<open>jsonify('healthy')\<close>.\<close>

definition health :: handler where
  "health = \<lparr>parameters = [], call = jsonify (PStr ''healthy'')\<rparr>"

text \<open>A plain route, a method, and a function whose second parameter is \<^verbatim>\<open>self\<close>.\<close>

definition records_route :: handler where
  "records_route = \<lparr>parameters = [], call = (\<lambda>w. (Inr two_records, w))\<rparr>"

definition records_method :: handler where
  "records_method = \<lparr>parameters = [''self'', ''id''], call = (\<lambda>w. (Inr two_records, w))\<rparr>"

definition self_second :: handler where
  "self_second = \<lparr>parameters = [''request'', ''self''], call = (\<lambda>w. (Inr two_records, w))\<rparr>"

definition foo_spec :: pyval where
  "foo_spec = PDict [(PStr ''name'', PStr ''foo''), (PStr ''type'', PStr ''int''),
                     (PStr ''help'', PStr ''An important foo'')]"

section \<open>Auxiliary facts\<close>

lemma map_of_attr_store:
  "map_of (attr_store as name v) = (map_of as)(name \<mapsto> v)"
  by (induction as) (auto simp: fun_eq_iff)

lemma map_of_dict_setitem:
  "map_of (dict_setitem kvs k v) = (map_of kvs)(k \<mapsto> v)"
  by (induction kvs) (auto simp: fun_eq_iff)

lemma add_arguments_Inr:
  "list_all is_dict qps \<Longrightarrow> add_arguments qps p = Inr p' \<Longrightarrow>
     p' = p\<lparr>parser_args := parser_args p @ map (\<lambda>a. with_location (dict_items a)) qps\<rparr>"
proof (induction qps arbitrary: p)
  case Nil
  then show ?case by simp
next
  case (Cons qp qps)
  from Cons.prems(1) obtain kvs where qp: "qp = PDict kvs"
    by (cases qp) auto
  from Cons.prems(2) qp obtain p1
    where p1: "add_argument qp p = Inr p1" and rest: "add_arguments qps p1 = Inr p'"
    by (auto split: sum.splits)
  from p1 qp have p1_eq: "p1 = p\<lparr>parser_args := parser_args p @ [with_location kvs]\<rparr>"
    by (auto split: if_splits)
  from Cons.prems(1) have "list_all is_dict qps" by simp
  from Cons.IH [OF this rest] show ?case
    by (simp add: p1_eq qp dict_items_def)
qed

section \<open>The Method Detector: results\<close>

text \<open>
  C3, as stated: the detector returns true if and only if the first parameter of the
  signature is named \<^verbatim>\<open>self\<close>. It fails for a function whose second parameter is
  \<^verbatim>\<open>self\<close>: the detector says it is a method, and its first parameter is
  \<^verbatim>\<open>request\<close>.
\<close>

theorem is_method_first_parameter_counterexample:
  "\<not> (is_method self_second = spec_first_parameter_is_self self_second)"
  by (simp add: is_method_def spec_first_parameter_is_self_def self_second_def)

text \<open>
  C3, as amended. The detector returns true if and only if some parameter of the
  signature, at any position, is named \<^verbatim>\<open>self\<close>; so it returns true whenever the first
  parameter is \<^verbatim>\<open>self\<close>, and false for a callable none of whose parameters is
  \<^verbatim>\<open>self\<close>.
\<close>

theorem is_method_iff_some_parameter_self:
  "(spec_first_parameter_is_self func \<longrightarrow> is_method func)
   \<and> (is_method func =
        (\<exists>i. i < length (parameters func) \<and> parameters func ! i = ''self''))"
  by (auto simp: is_method_def spec_first_parameter_is_self_def in_set_conv_nth
           split: list.splits)

theorem is_method_iff_some_parameter_self_witness:
  "spec_first_parameter_is_self records_method \<and> is_method records_method
   \<and> (\<exists>i. i < length (parameters records_method)
            \<and> parameters records_method ! i = ''self'')"
proof -
  have first: "spec_first_parameter_is_self records_method"
    by (simp add: spec_first_parameter_is_self_def records_method_def)
  from is_method_iff_some_parameter_self [of records_method] first
  show ?thesis by blast
qed

section \<open>The Request Decorator: results\<close>

subsection \<open>Decoration time\<close>

text \<open>
  C10. The positional arguments that are not dictionaries have no effect on what
  \<^verbatim>\<open>accepts\<close> does at decoration time: the outcome (a parser, or an error raised for one
  of the dictionaries) is the outcome for the dictionaries alone. When a parser results,
  it is the initial parser with one registered specification for each dictionary among
  the arguments, in order, and nothing else.
\<close>

theorem accepts_registers_only_dicts:
  "accepts_parser imp api args = accepts_parser imp api (filter is_dict args)
   \<and> (accepts_parser imp api args = Inr p \<longrightarrow>
        p = (new_parser api)\<lparr>parser_args := parser_args (new_parser api)
               @ map (\<lambda>a. with_location (dict_items a)) (filter is_dict args)\<rparr>)"
proof -
  have "list_all is_dict (filter is_dict args)"
    by (simp add: list_all_iff)
  then show ?thesis
    by (auto simp: accepts_parser_def query_params_def split: if_splits
             dest: add_arguments_Inr)
qed

theorem accepts_registers_only_dicts_witness:
  "accepts_parser True None [PInt 3, foo_spec, PStr ''bar''] =
     Inr \<lparr>bundle_errors = True, parser_args = [with_location (dict_items foo_spec)]\<rparr>
   \<and> accepts_parser True None [PInt 3, foo_spec, PStr ''bar''] =
       accepts_parser True None [foo_spec]"
proof -
  have run: "accepts_parser True None [PInt 3, foo_spec, PStr ''bar''] =
               Inr \<lparr>bundle_errors = True, parser_args = [with_location (dict_items foo_spec)]\<rparr>"
    by (simp add: accepts_parser_def query_params_def new_parser_def foo_spec_def
                  dict_items_def)
  from accepts_registers_only_dicts
         [of True None "[PInt 3, foo_spec, PStr ''bar'']"
             "\<lparr>bundle_errors = True, parser_args = [with_location (dict_items foo_spec)]\<rparr>"]
       run
  show ?thesis by (simp add: foo_spec_def)
qed

subsection \<open>Each invocation\<close>

text \<open>
  What lines 65 to 69 do when they do not raise. An error without a \<^verbatim>\<open>data\<close> attribute
  gets one, holding the schema errors under \<^verbatim>\<open>schema_errors\<close>. An error whose \<^verbatim>\<open>data\<close>
  has a dictionary under \<^verbatim>\<open>message\<close> keeps its data, and that dictionary gets the entry
  \<^verbatim>\<open>schema_errors\<close>.
\<close>

lemma attach_schema_errors_without_data:
  "exc_bool e \<Longrightarrow> exc_data e = None \<Longrightarrow>
     attach_schema_errors (Some e) err =
       Inr (e\<lparr>exc_data := Some (PDict [(PStr ''schema_errors'', err)])\<rparr>)"
  by (simp add: attach_schema_errors_def)

lemma attach_schema_errors_message_dict:
  assumes "exc_bool e"
      and "exc_data e = Some (PDict kvs)"
      and "map_of kvs (PStr ''message'') = Some (PDict msgs)"
  shows "attach_schema_errors (Some e) err =
           Inr (e\<lparr>exc_data := Some (PDict (dict_setitem kvs (PStr ''message'')
                  (PDict (dict_setitem msgs (PStr ''schema_errors'') err))))\<rparr>)"
  using assms by (simp add: attach_schema_errors_def)

lemma attach_schema_errors_message_not_dict:
  assumes "exc_bool e"
      and "exc_data e = Some (PDict kvs)"
      and "map_of kvs (PStr ''message'') = Some m"
      and "\<not> is_dict m"
  shows "attach_schema_errors (Some e) err = Inl AttributeError"
  using assms by (cases m) (simp_all add: attach_schema_errors_def)

text \<open>
  When both the argument parsing and the schema fail and lines 65 to 69 do not raise,
  the error they produce is raised, after the assignment of line 70.
\<close>

lemma accepts_raises_aggregated_error:
  assumes "parse_args w = Inl e"
      and "json_body w = Inr body"
      and "load s many body = Inr (obj, err)"
      and "truthy err"
      and "attach_schema_errors (Some e) err = Inr agg"
      and "exc_bool agg"
  shows "accepts_inner parse_args (Some s) many func w =
           (Inl agg, w\<lparr>parsed_obj := Some obj,
                        events := events w @ [EvParseArgs, EvLoad many body]\<rparr>)"
  using assms by (simp add: accepts_inner_def raise_or_call_def)

text \<open>
  C1 fails on the code. \<^verbatim>\<open>parse_args\<close> raises the error of \<^verbatim>\<open>flask_restplus\<close>, whose
  \<^verbatim>\<open>data["message"]\<close> is a string, and the schema reports a missing field. Line 67
  calls \<^verbatim>\<open>update\<close> on the string: the invocation ends with that \<^verbatim>\<open>AttributeError\<close>,
  which has no \<^verbatim>\<open>data\<close>, so it carries neither the schema errors nor the data of the
  argument-parsing error.
\<close>

theorem accepts_merge_raises_on_string_message:
  "json_body empty_request = Inr (PDict [])
   \<and> load name_schema False (PDict []) = Inr (PDict [], name_missing)
   \<and> truthy name_missing
   \<and> accepts_inner parse_fails_restplus (Some name_schema) False test_route empty_request =
       (Inl AttributeError,
        empty_request\<lparr>events := [EvParseArgs, EvLoad False (PDict [])]\<rparr>)
   \<and> exc_data AttributeError = None"
  by (simp add: accepts_inner_def attach_schema_errors_def parse_fails_restplus_def
                restplus_error_def name_schema_def name_missing_def empty_request_def
                AttributeError_def raised_def KeyError_def)

text \<open>
  C2, as stated: whenever the argument parsing fails and a schema is configured, the
  schema load still runs and the captured error is raised after it. It fails on a
  request whose body is not JSON: the parser's error is captured, then
  \<^verbatim>\<open>request.get_json()\<close> raises on line 63, outside the \<^verbatim>\<open>try\<close>. The invocation ends
  with that other error, the load is never called, and the captured error is dropped.
\<close>

theorem accepts_load_skipped_counterexample:
  "parse_fails_restful malformed_request = Inl restful_error
   \<and> accepts_inner parse_fails_restful (Some name_schema) False test_route
        malformed_request =
       (Inl malformed_json, malformed_request\<lparr>events := [EvParseArgs]\<rparr>)
   \<and> malformed_json \<noteq> restful_error"
  by (simp add: accepts_inner_def parse_fails_restful_def malformed_request_def
                malformed_json_def restful_error_def raised_def)

text \<open>
  C2, as amended. An argument-parsing failure (an exception object that is true) is
  captured, not raised at once. Without a schema it is raised after the parse. With a
  schema the JSON body is read next, and an exception from that read, or from the load
  that follows it, is raised at once in place of the captured error. When the read and
  the load return, the captured error is raised only after both parsing attempts, and
  after \<^verbatim>\<open>request.parsed_obj\<close> has been assigned: as it is when the load reports no
  errors; with the schema errors as its \<^verbatim>\<open>data\<close>, under \<^verbatim>\<open>schema_errors\<close>, when it had
  no \<^verbatim>\<open>data\<close>; and with the entry \<^verbatim>\<open>schema_errors\<close> added to the dictionary under
  \<^verbatim>\<open>data["message"]\<close> when it has one. In no case is the handler called.
\<close>

theorem accepts_not_fail_fast:
  assumes "parse_args w = Inl e"
      and "exc_bool e"
  shows "(schema = None \<longrightarrow>
            accepts_inner parse_args schema many func w =
              (Inl e, w\<lparr>events := events w @ [EvParseArgs]\<rparr>))
       \<and> (schema = Some s \<and> json_body w = Inl ex \<longrightarrow>
            accepts_inner parse_args schema many func w =
              (Inl ex, w\<lparr>events := events w @ [EvParseArgs]\<rparr>))
       \<and> (schema = Some s \<and> json_body w = Inr body \<and> load s many body = Inl ex \<longrightarrow>
            accepts_inner parse_args schema many func w =
              (Inl ex, w\<lparr>events := events w @ [EvParseArgs, EvLoad many body]\<rparr>))
       \<and> (schema = Some s \<and> json_body w = Inr body \<and> load s many body = Inr (obj, err)
            \<and> \<not> truthy err \<longrightarrow>
            accepts_inner parse_args schema many func w =
              (Inl e, w\<lparr>parsed_obj := Some obj,
                        events := events w @ [EvParseArgs, EvLoad many body]\<rparr>))
       \<and> (schema = Some s \<and> json_body w = Inr body \<and> load s many body = Inr (obj, err)
            \<and> truthy err \<and> exc_data e = None \<longrightarrow>
            accepts_inner parse_args schema many func w =
              (Inl (e\<lparr>exc_data := Some (PDict [(PStr ''schema_errors'', err)])\<rparr>),
               w\<lparr>parsed_obj := Some obj,
                  events := events w @ [EvParseArgs, EvLoad many body]\<rparr>))
       \<and> (schema = Some s \<and> json_body w = Inr body \<and> load s many body = Inr (obj, err)
            \<and> truthy err \<and> exc_data e = Some (PDict kvs)
            \<and> map_of kvs (PStr ''message'') = Some (PDict msgs) \<longrightarrow>
            accepts_inner parse_args schema many func w =
              (Inl (e\<lparr>exc_data := Some (PDict (dict_setitem kvs (PStr ''message'')
                       (PDict (dict_setitem msgs (PStr ''schema_errors'') err))))\<rparr>),
               w\<lparr>parsed_obj := Some obj,
                  events := events w @ [EvParseArgs, EvLoad many body]\<rparr>))"
proof -
  have no_schema: "schema = None \<longrightarrow>
      accepts_inner parse_args schema many func w =
        (Inl e, w\<lparr>events := events w @ [EvParseArgs]\<rparr>)"
    using assms by (simp add: accepts_inner_def raise_or_call_def)
  have read_raises: "schema = Some s \<and> json_body w = Inl ex \<longrightarrow>
      accepts_inner parse_args schema many func w =
        (Inl ex, w\<lparr>events := events w @ [EvParseArgs]\<rparr>)"
    using assms by (simp add: accepts_inner_def)
  have load_raises: "schema = Some s \<and> json_body w = Inr body \<and> load s many body = Inl ex \<longrightarrow>
      accepts_inner parse_args schema many func w =
        (Inl ex, w\<lparr>events := events w @ [EvParseArgs, EvLoad many body]\<rparr>)"
    using assms by (simp add: accepts_inner_def)
  have valid: "schema = Some s \<and> json_body w = Inr body \<and> load s many body = Inr (obj, err)
      \<and> \<not> truthy err \<longrightarrow>
      accepts_inner parse_args schema many func w =
        (Inl e, w\<lparr>parsed_obj := Some obj,
                  events := events w @ [EvParseArgs, EvLoad many body]\<rparr>)"
    using assms by (simp add: accepts_inner_def raise_or_call_def)
  have no_data: "schema = Some s \<and> json_body w = Inr body \<and> load s many body = Inr (obj, err)
      \<and> truthy err \<and> exc_data e = None \<longrightarrow>
      accepts_inner parse_args schema many func w =
        (Inl (e\<lparr>exc_data := Some (PDict [(PStr ''schema_errors'', err)])\<rparr>),
         w\<lparr>parsed_obj := Some obj,
            events := events w @ [EvParseArgs, EvLoad many body]\<rparr>)"
    using assms
    by (simp add: accepts_inner_def raise_or_call_def attach_schema_errors_def)
  have message_dict: "schema = Some s \<and> json_body w = Inr body
      \<and> load s many body = Inr (obj, err)
      \<and> truthy err \<and> exc_data e = Some (PDict kvs)
      \<and> map_of kvs (PStr ''message'') = Some (PDict msgs) \<longrightarrow>
      accepts_inner parse_args schema many func w =
        (Inl (e\<lparr>exc_data := Some (PDict (dict_setitem kvs (PStr ''message'')
                 (PDict (dict_setitem msgs (PStr ''schema_errors'') err))))\<rparr>),
         w\<lparr>parsed_obj := Some obj,
            events := events w @ [EvParseArgs, EvLoad many body]\<rparr>)"
    using assms
    by (simp add: accepts_inner_def raise_or_call_def attach_schema_errors_def)
  from no_schema read_raises load_raises valid no_data message_dict
  show ?thesis by blast
qed

theorem accepts_not_fail_fast_witness:
  "accepts_inner parse_fails_restful None True test_route empty_request =
     (Inl restful_error, empty_request\<lparr>events := [EvParseArgs]\<rparr>)
   \<and> accepts_inner parse_fails_restful (Some name_schema) True test_route
        malformed_request =
     (Inl malformed_json, malformed_request\<lparr>events := [EvParseArgs]\<rparr>)
   \<and> accepts_inner parse_fails_restful (Some strict_schema) True test_route empty_request =
     (Inl load_failure, empty_request\<lparr>events := [EvParseArgs, EvLoad True (PDict [])]\<rparr>)
   \<and> accepts_inner parse_fails_restful (Some name_schema) True test_route named_request =
     (Inl restful_error,
      named_request\<lparr>parsed_obj := Some (PDict [(PStr ''name'', PStr ''faraday'')]),
                    events := [EvParseArgs,
                               EvLoad True (PDict [(PStr ''name'', PStr ''faraday'')])]\<rparr>)
   \<and> accepts_inner parse_fails_bare (Some name_schema) True test_route empty_request =
     (Inl (bare_error\<lparr>exc_data := Some (PDict [(PStr ''schema_errors'', name_missing)])\<rparr>),
      empty_request\<lparr>parsed_obj := Some (PDict []),
                    events := [EvParseArgs, EvLoad True (PDict [])]\<rparr>)
   \<and> accepts_inner parse_fails_restful (Some name_schema) True test_route empty_request =
     (Inl (restful_error\<lparr>exc_data := Some (PDict [(PStr ''message'',
              PDict [(PStr ''foo'', PStr ''A required foo''),
                     (PStr ''schema_errors'', name_missing)])])\<rparr>),
      empty_request\<lparr>parsed_obj := Some (PDict []),
                    events := [EvParseArgs, EvLoad True (PDict [])]\<rparr>)"
proof -
  have fails: "parse_fails_restful empty_request = Inl restful_error"
    and fails_named: "parse_fails_restful named_request = Inl restful_error"
    and fails_malformed: "parse_fails_restful malformed_request = Inl restful_error"
    and fails_bare: "parse_fails_bare empty_request = Inl bare_error"
    by (simp_all add: parse_fails_restful_def parse_fails_bare_def)
  have true: "exc_bool restful_error" and true_bare: "exc_bool bare_error"
    by (simp_all add: restful_error_def bare_error_def raised_def)
  have body: "json_body empty_request = Inr (PDict [])"
    and body_named: "json_body named_request = Inr (PDict [(PStr ''name'', PStr ''faraday'')])"
    and body_malformed: "json_body malformed_request = Inl malformed_json"
    by (simp_all add: empty_request_def named_request_def malformed_request_def)
  have invalid: "load name_schema True (PDict []) = Inr (PDict [], name_missing)"
    and valid: "load name_schema True (PDict [(PStr ''name'', PStr ''faraday'')]) =
                  Inr (PDict [(PStr ''name'', PStr ''faraday'')], PDict [])"
    and strict: "load strict_schema True (PDict []) = Inl load_failure"
    by (simp_all add: name_schema_def strict_schema_def KeyError_def raised_def)
  have errs: "truthy name_missing"
    by (simp add: name_missing_def)
  have no_data: "exc_data bare_error = None"
    by (simp add: bare_error_def raised_def)
  have data: "exc_data restful_error =
                Some (PDict [(PStr ''message'', PDict [(PStr ''foo'', PStr ''A required foo'')])])"
    by (simp add: restful_error_def)
  have msgs: "map_of [(PStr ''message'', PDict [(PStr ''foo'', PStr ''A required foo'')])]
                (PStr ''message'') = Some (PDict [(PStr ''foo'', PStr ''A required foo'')])"
    by simp
  from accepts_not_fail_fast
         [where parse_args = parse_fails_restful and w = empty_request
            and e = restful_error and schema = None and many = True and func = test_route,
          OF fails true]
  have c1: "accepts_inner parse_fails_restful None True test_route empty_request =
     (Inl restful_error, empty_request\<lparr>events := events empty_request @ [EvParseArgs]\<rparr>)"
    by simp
  from accepts_not_fail_fast
         [where parse_args = parse_fails_restful and w = malformed_request
            and e = restful_error and schema = "Some name_schema" and s = name_schema
            and many = True and func = test_route and ex = malformed_json,
          OF fails_malformed true]
       body_malformed
  have c2: "accepts_inner parse_fails_restful (Some name_schema) True test_route
              malformed_request =
     (Inl malformed_json,
      malformed_request\<lparr>events := events malformed_request @ [EvParseArgs]\<rparr>)"
    by simp
  from accepts_not_fail_fast
         [where parse_args = parse_fails_restful and w = empty_request
            and e = restful_error and schema = "Some strict_schema" and s = strict_schema
            and many = True and func = test_route and body = "PDict []"
            and ex = load_failure,
          OF fails true]
       body strict
  have c3: "accepts_inner parse_fails_restful (Some strict_schema) True test_route
              empty_request =
     (Inl load_failure,
      empty_request\<lparr>events := events empty_request @ [EvParseArgs, EvLoad True (PDict [])]\<rparr>)"
    by simp
  from accepts_not_fail_fast
         [where parse_args = parse_fails_restful and w = named_request
            and e = restful_error and schema = "Some name_schema" and s = name_schema
            and many = True and func = test_route
            and body = "PDict [(PStr ''name'', PStr ''faraday'')]"
            and obj = "PDict [(PStr ''name'', PStr ''faraday'')]" and err = "PDict []",
          OF fails_named true]
       body_named valid
  have c4: "accepts_inner parse_fails_restful (Some name_schema) True test_route
              named_request =
     (Inl restful_error,
      named_request\<lparr>parsed_obj := Some (PDict [(PStr ''name'', PStr ''faraday'')]),
        events := events named_request @
          [EvParseArgs, EvLoad True (PDict [(PStr ''name'', PStr ''faraday'')])]\<rparr>)"
    by simp
  from accepts_not_fail_fast
         [where parse_args = parse_fails_bare and w = empty_request
            and e = bare_error and schema = "Some name_schema" and s = name_schema
            and many = True and func = test_route and body = "PDict []"
            and obj = "PDict []" and err = name_missing,
          OF fails_bare true_bare]
       body invalid errs no_data
  have c5: "accepts_inner parse_fails_bare (Some name_schema) True test_route empty_request =
     (Inl (bare_error\<lparr>exc_data := Some (PDict [(PStr ''schema_errors'', name_missing)])\<rparr>),
      empty_request\<lparr>parsed_obj := Some (PDict []),
        events := events empty_request @ [EvParseArgs, EvLoad True (PDict [])]\<rparr>)"
    by simp
  from accepts_not_fail_fast
         [where parse_args = parse_fails_restful and w = empty_request
            and e = restful_error and schema = "Some name_schema" and s = name_schema
            and many = True and func = test_route and body = "PDict []"
            and obj = "PDict []" and err = name_missing
            and kvs = "[(PStr ''message'', PDict [(PStr ''foo'', PStr ''A required foo'')])]"
            and msgs = "[(PStr ''foo'', PStr ''A required foo'')]",
          OF fails true]
       body invalid errs data msgs
  have c6: "accepts_inner parse_fails_restful (Some name_schema) True test_route
              empty_request =
     (Inl (restful_error\<lparr>exc_data := Some (PDict [(PStr ''message'',
              PDict [(PStr ''foo'', PStr ''A required foo''),
                     (PStr ''schema_errors'', name_missing)])])\<rparr>),
      empty_request\<lparr>parsed_obj := Some (PDict []),
        events := events empty_request @ [EvParseArgs, EvLoad True (PDict [])]\<rparr>)"
    by simp
  from c1 c2 c3 c4 c5 c6 show ?thesis
    by (simp add: empty_request_def named_request_def malformed_request_def)
qed

text \<open>
  C7. When the argument parsing returns and the schema, if there is one, loads the
  JSON body and reports no error, the invocation is the call of the handler in the
  state where \<^verbatim>\<open>request.parsed_args\<close> holds the parsed arguments and, with a schema,
  \<^verbatim>\<open>request.parsed_obj\<close> holds the loaded object; whatever the handler returns or raises
  is the outcome.
\<close>

theorem accepts_attaches_then_calls:
  assumes "parse_args w = Inr a"
      and "case schema of None \<Rightarrow> True
           | Some s \<Rightarrow> json_body w = Inr body \<and> load s many body = Inr (obj, err)
                        \<and> \<not> truthy err"
  shows "accepts_inner parse_args schema many func w =
           call func
             (case schema of
                None \<Rightarrow>
                  w\<lparr>parsed_args := Some a, events := events w @ [EvParseArgs]\<rparr>
              | Some s \<Rightarrow>
                  w\<lparr>parsed_args := Some a,
                     parsed_obj := Some obj,
                     events := events w @ [EvParseArgs, EvLoad many body]\<rparr>)"
proof (cases schema)
  case None
  have "accepts_inner parse_args schema many func w =
          call func (w\<lparr>events := events w @ [EvParseArgs], parsed_args := Some a\<rparr>)"
    using None assms by (simp add: accepts_inner_def raise_or_call_def)
  also have "w\<lparr>events := events w @ [EvParseArgs], parsed_args := Some a\<rparr> =
             w\<lparr>parsed_args := Some a, events := events w @ [EvParseArgs]\<rparr>"
    by simp
  finally show ?thesis
    using None by simp
next
  case (Some s)
  let ?log = "events w @ [EvParseArgs, EvLoad many body]"
  have "accepts_inner parse_args schema many func w =
          call func (w\<lparr>parsed_args := Some a, events := ?log, parsed_obj := Some obj\<rparr>)"
    using Some assms by (simp add: accepts_inner_def raise_or_call_def Let_def)
  also have "w\<lparr>parsed_args := Some a, events := ?log, parsed_obj := Some obj\<rparr> =
             w\<lparr>parsed_args := Some a, parsed_obj := Some obj, events := ?log\<rparr>"
    by simp
  finally show ?thesis
    using Some by simp
qed

theorem accepts_attaches_then_calls_witness:
  "accepts_inner parse_foo (Some name_schema) False test_route named_request =
     (Inr (PStr ''success''),
      named_request\<lparr>parsed_args := Some (PDict [(PStr ''foo'', PInt 3)]),
                    parsed_obj := Some (PDict [(PStr ''name'', PStr ''faraday'')]),
                    events := [EvParseArgs,
                               EvLoad False (PDict [(PStr ''name'', PStr ''faraday'')])]\<rparr>)
   \<and> accepts_inner parse_foo None False test_route named_request =
     (Inr (PStr ''success''),
      named_request\<lparr>parsed_args := Some (PDict [(PStr ''foo'', PInt 3)]),
                    events := [EvParseArgs]\<rparr>)"
proof -
  have parsed: "parse_foo named_request = Inr (PDict [(PStr ''foo'', PInt 3)])"
    by (simp add: parse_foo_def)
  have valid: "case Some name_schema of None \<Rightarrow> True
               | Some s \<Rightarrow>
                   json_body named_request = Inr (PDict [(PStr ''name'', PStr ''faraday'')])
                   \<and> load s False (PDict [(PStr ''name'', PStr ''faraday'')]) =
                       Inr (PDict [(PStr ''name'', PStr ''faraday'')], PDict [])
                   \<and> \<not> truthy (PDict [])"
    by (simp add: name_schema_def named_request_def)
  have none: "case None :: schema option of None \<Rightarrow> True
              | Some s \<Rightarrow>
                   json_body named_request = Inr PNone
                   \<and> load s False PNone = Inr (PNone, PNone) \<and> \<not> truthy PNone"
    by simp
  from accepts_attaches_then_calls
         [where parse_args = parse_foo and w = named_request
            and schema = "Some name_schema" and many = False and func = test_route,
          OF parsed valid]
       accepts_attaches_then_calls
         [where parse_args = parse_foo and w = named_request
            and schema = None and many = False and func = test_route,
          OF parsed none]
  show ?thesis
    by (simp add: test_route_def name_schema_def named_request_def)
qed

text \<open>
  C9 fails on the code, by the defect shown for C1. With the error of
  \<^verbatim>\<open>flask_restplus\<close> from the parser and a schema that reports a missing field, line 67
  raises before line 70 is reached: a schema is configured, its load has returned, and
  \<^verbatim>\<open>request.parsed_obj\<close> is still unset when the invocation ends.
\<close>

theorem accepts_parsed_obj_unset_on_string_message:
  "json_body empty_request = Inr (PDict [])
   \<and> load name_schema False (PDict []) = Inr (PDict [], name_missing)
   \<and> parsed_obj (snd (accepts_inner parse_fails_restplus (Some name_schema) False
                        test_route empty_request)) = None"
  by (simp add: accepts_inner_def attach_schema_errors_def parse_fails_restplus_def
                restplus_error_def name_schema_def name_missing_def empty_request_def
                AttributeError_def raised_def KeyError_def)

text \<open>
  On every other path through the schema step, once the load has returned, line 70 is
  reached: the attribute holds the loaded object when the invocation raises the
  aggregated error.
\<close>

lemma accepts_assigns_parsed_obj_before_raise:
  assumes "json_body w = Inr body"
      and "load s many body = Inr (obj, err)"
      and "truthy err"
      and "attach_schema_errors (case parse_args w of Inl e \<Rightarrow> Some e | Inr a \<Rightarrow> None) err
             = Inr agg"
      and "exc_bool agg"
  shows "fst (accepts_inner parse_args (Some s) many func w) = Inl agg
         \<and> parsed_obj (snd (accepts_inner parse_args (Some s) many func w)) = Some obj"
  using assms
  by (cases "parse_args w") (simp_all add: accepts_inner_def raise_or_call_def)

section \<open>The Response Decorator: results\<close>

text \<open>
  C6. A return value that is an instance of the framework's response class is returned
  as it is, and the state is the one the handler left: no attribute of the response is
  written, nothing is dumped and no new response is built. Neither the schema nor the
  carrier type is consulted.
\<close>

theorem responds_passes_response_through:
  assumes "call func w = (Inr rv, w')"
      and "isinstance (heap w') rv Response"
  shows "responds_inner schema many wrapper func w = (Inr rv, w')"
  using assms by (simp add: responds_inner_def)

theorem responds_passes_response_through_witness:
  "responds_inner (Some raising_schema) True (Some ''flask.wrappers.Response'') health
     empty_request =
   (Inr (PRef 0),
    empty_request\<lparr>heap := [json_response (PStr ''healthy'')],
                  events := [EvJsonify (PStr ''healthy'')]\<rparr>)"
proof -
  let ?w' = "empty_request\<lparr>heap := [json_response (PStr ''healthy'')],
                           events := [EvJsonify (PStr ''healthy'')]\<rparr>"
  have ret: "call health empty_request = (Inr (PRef 0), ?w')"
    by (simp add: health_def jsonify_def empty_request_def)
  have resp: "isinstance (heap ?w') (PRef 0) Response"
    by (simp add: isinstance_def type_mro_def json_response_def)
  from responds_passes_response_through [OF ret resp]
  show ?thesis by simp
qed



text \<open>
  C5. When a carrier type is configured and the return value, not a response, is an
  instance of it with a \<^verbatim>\<open>value\<close> attribute, the result is the same object; its
  \<^verbatim>\<open>value\<close> now holds what the schema dumped from the previous value (with the given
  \<^verbatim>\<open>many\<close>), every other attribute of it (the status among them) and its type are as
  before, and no other object of the heap has changed.
\<close>

theorem responds_mutates_carrier_value_only:
  assumes "call func w = (Inr rv, w')"
      and "\<not> isinstance (heap w') rv Response"
      and "isinstance (heap w') rv c"
      and "getattr (heap w') rv ''value'' = Inr v"
      and "dump s many v = Inr (data, errors)"
  shows "\<exists>w2. responds_inner (Some s) many (Some c) func w = (Inr rv, w2)
           \<and> getattr (heap w2) rv ''value'' = Inr data
           \<and> (\<forall>name. name \<noteq> ''value'' \<longrightarrow>
                 getattr (heap w2) rv name = getattr (heap w') rv name)
           \<and> type_mro (heap w2) rv = type_mro (heap w') rv
           \<and> length (heap w2) = length (heap w')
           \<and> (\<forall>b. PRef b \<noteq> rv \<longrightarrow> heap w2 ! b = heap w' ! b)
           \<and> events w2 = events w' @ [EvDump many v]
           \<and> parsed_args w2 = parsed_args w' \<and> parsed_obj w2 = parsed_obj w'
           \<and> json_body w2 = json_body w'"
proof -
  from assms(4) obtain a where rv: "rv = PRef a" and a: "a < length (heap w')"
    by (cases rv) (auto simp: getattr_def split: if_splits)
  let ?o = "(heap w' ! a)\<lparr>obj_attrs := attr_store (obj_attrs (heap w' ! a)) ''value'' data\<rparr>"
  let ?w2 = "w'\<lparr>heap := (heap w')[a := ?o], events := events w' @ [EvDump many v]\<rparr>"
  have run: "responds_inner (Some s) many (Some c) func w = (Inr rv, ?w2)"
    using assms a
    by (simp add: rv responds_inner_def is_carrier_def dump_carrier_def setattr_def)
  have val: "getattr (heap ?w2) rv ''value'' = Inr data"
    using a by (simp add: rv getattr_def map_of_attr_store)
  have others: "\<forall>name. name \<noteq> ''value'' \<longrightarrow>
                  getattr (heap ?w2) rv name = getattr (heap w') rv name"
    using a by (simp add: rv getattr_def map_of_attr_store)
  have mro: "type_mro (heap ?w2) rv = type_mro (heap w') rv"
    using a by (simp add: rv type_mro_def)
  have frame: "\<forall>b. PRef b \<noteq> rv \<longrightarrow> heap ?w2 ! b = heap w' ! b"
    by (simp add: rv)
  show ?thesis
    using run val others mro frame by (intro exI [of _ ?w2]) simp
qed

theorem responds_mutates_carrier_value_only_witness:
  "\<exists>w2. responds_inner (Some name_schema) True (Some ''Wrapper'') wrapper_route
           empty_request = (Inr (PRef 0), w2)
     \<and> getattr (heap w2) (PRef 0) ''value'' = Inr two_records
     \<and> getattr (heap w2) (PRef 0) ''status'' = Inr (PInt 201)
     \<and> length (heap w2) = 1"
proof -
  let ?w' = "empty_request\<lparr>heap :=
               [\<lparr>obj_mro = [''Wrapper'', ''object''],
                 obj_attrs = [(''value'', two_records), (''status'', PInt 201)]\<rparr>]\<rparr>"
  have ret: "call wrapper_route empty_request = (Inr (PRef 0), ?w')"
    by (simp add: wrapper_route_def empty_request_def)
  have no_resp: "\<not> isinstance (heap ?w') (PRef 0) Response"
    by (simp add: isinstance_def type_mro_def Response_def)
  have carrier: "isinstance (heap ?w') (PRef 0) ''Wrapper''"
    by (simp add: isinstance_def type_mro_def)
  have slot: "getattr (heap ?w') (PRef 0) ''value'' = Inr two_records"
    by (simp add: getattr_def)
  have status: "getattr (heap ?w') (PRef 0) ''status'' = Inr (PInt 201)"
    by (simp add: getattr_def)
  have dumped: "dump name_schema True two_records = Inr (two_records, PDict [])"
    by (simp add: name_schema_def)
  from responds_mutates_carrier_value_only [OF ret no_resp carrier slot dumped]
  obtain w2 where
    "responds_inner (Some name_schema) True (Some ''Wrapper'') wrapper_route empty_request
       = (Inr (PRef 0), w2)"
    "getattr (heap w2) (PRef 0) ''value'' = Inr two_records"
    "\<forall>name. name \<noteq> ''value'' \<longrightarrow>
       getattr (heap w2) (PRef 0) name = getattr (heap ?w') (PRef 0) name"
    "length (heap w2) = length (heap ?w')"
    by blast
  with status show ?thesis
    by (intro exI [of _ w2]) simp
qed

text \<open>
  C8, as stated: no failure that the schema's \<^verbatim>\<open>dump\<close> produces is swallowed. It
  fails for a failure that \<^verbatim>\<open>dump\<close> reports in the errors of the pair it returns:
  line 128 reads \<^verbatim>\<open>.data\<close> only. Here \<^verbatim>\<open>dump\<close> could not serialize the field
  \<^verbatim>\<open>id\<close> and says so; the invocation returns a response built from the partial data,
  and nothing is raised.
\<close>

theorem responds_swallows_dump_errors_counterexample:
  "dump partial_schema True two_records = Inr (names_only, id_invalid)
   \<and> truthy id_invalid
   \<and> responds_inner (Some partial_schema) True None records_route empty_request =
       (Inr (PRef 0),
        empty_request\<lparr>heap := [json_response names_only],
                      events := [EvDump True two_records, EvJsonify names_only]\<rparr>)"
  by (simp add: responds_inner_def dump_plain_def jsonify_def is_carrier_def is_method_def
                isinstance_def type_mro_def partial_schema_def records_route_def
                two_records_def id_invalid_def empty_request_def Response_def)

text \<open>
  C8, as amended. The decorator handles no error of its own. When the value is not a
  response and the schema's \<^verbatim>\<open>dump\<close> raises on what is dumped (the carrier's
  \<^verbatim>\<open>value\<close> in the carrier branch, the return value otherwise), the invocation raises
  that same exception: no object is changed and no response is built. When \<^verbatim>\<open>dump\<close>
  returns, the errors of the pair it returns are not examined: the invocation returns
  normally, with the outcome it has for the same data and any other errors.
\<close>

theorem responds_raises_what_dump_raises:
  assumes "call func w = (Inr rv, w')"
      and "\<not> isinstance (heap w') rv Response"
      and "(if is_carrier wrapper (heap w') rv then getattr (heap w') rv ''value''
            else Inr rv) = Inr v"
  shows "(dump s many v = Inl ex \<longrightarrow>
            responds_inner (Some s) many wrapper func w =
              (Inl ex, w'\<lparr>events := events w' @ [EvDump many v]\<rparr>))
       \<and> (dump s many v = Inr (data, errors) \<and> dump s' many v = Inr (data, errors') \<longrightarrow>
            responds_inner (Some s) many wrapper func w =
              responds_inner (Some s') many wrapper func w
            \<and> (\<exists>r w2. responds_inner (Some s) many wrapper func w = (Inr r, w2)))"
proof (cases "is_carrier wrapper (heap w') rv")
  case False
  with assms have v: "v = rv" by simp
  from False assms show ?thesis
    by (auto simp: v responds_inner_def dump_plain_def jsonify_def Let_def)
next
  case True
  with assms have slot: "getattr (heap w') rv ''value'' = Inr v" by simp
  then obtain a where rv: "rv = PRef a" and a: "a < length (heap w')"
    by (cases rv) (auto simp: getattr_def split: if_splits)
  from True assms slot a show ?thesis
    by (auto simp: rv responds_inner_def dump_carrier_def setattr_def Let_def)
qed

theorem responds_raises_what_dump_raises_witness:
  "responds_inner (Some raising_schema) False None records_route empty_request =
     (Inl dump_failure, empty_request\<lparr>events := [EvDump False two_records]\<rparr>)
   \<and> responds_inner (Some raising_schema) True (Some ''Wrapper'') wrapper_route
        empty_request =
     (Inl dump_failure, snd (call wrapper_route empty_request)
                          \<lparr>events := [EvDump True two_records]\<rparr>)
   \<and> responds_inner (Some partial_schema) False None records_route empty_request =
     responds_inner (Some names_schema) False None records_route empty_request
   \<and> (\<exists>r w2. responds_inner (Some partial_schema) False None records_route empty_request =
               (Inr r, w2))"
proof -
  let ?w' = "snd (call wrapper_route empty_request)"
  have ret: "call records_route empty_request = (Inr two_records, empty_request)"
    by (simp add: records_route_def)
  have no_resp: "\<not> isinstance (heap empty_request) two_records Response"
    by (simp add: isinstance_def type_mro_def two_records_def Response_def)
  have val: "(if is_carrier None (heap empty_request) two_records
              then getattr (heap empty_request) two_records ''value''
              else Inr two_records) = Inr two_records"
    by (simp add: is_carrier_def)
  have ret_w: "call wrapper_route empty_request = (Inr (PRef 0), ?w')"
    by (simp add: wrapper_route_def empty_request_def)
  have no_resp_w: "\<not> isinstance (heap ?w') (PRef 0) Response"
    by (simp add: wrapper_route_def empty_request_def isinstance_def type_mro_def
                  Response_def)
  have val_w: "(if is_carrier (Some ''Wrapper'') (heap ?w') (PRef 0)
                then getattr (heap ?w') (PRef 0) ''value''
                else Inr (PRef 0)) = Inr two_records"
    by (simp add: wrapper_route_def empty_request_def is_carrier_def isinstance_def
                  type_mro_def getattr_def)
  have log_w: "events ?w' = []"
    by (simp add: wrapper_route_def empty_request_def)
  have fails: "dump raising_schema False two_records = Inl dump_failure"
    and fails_many: "dump raising_schema True two_records = Inl dump_failure"
    by (simp_all add: raising_schema_def)
  have partial: "dump partial_schema False two_records = Inr (names_only, id_invalid)"
    and clean: "dump names_schema False two_records = Inr (names_only, PDict [])"
    by (simp_all add: partial_schema_def names_schema_def)
  from responds_raises_what_dump_raises
         [OF ret no_resp val, where s = raising_schema and many = False
            and ex = dump_failure]
       fails
  have plain: "responds_inner (Some raising_schema) False None records_route empty_request =
     (Inl dump_failure, empty_request\<lparr>events := [EvDump False two_records]\<rparr>)"
    by (simp add: empty_request_def)
  from responds_raises_what_dump_raises
         [OF ret_w no_resp_w val_w, where s = raising_schema and many = True
            and ex = dump_failure]
       fails_many log_w
  have carrier: "responds_inner (Some raising_schema) True (Some ''Wrapper'') wrapper_route
                   empty_request =
     (Inl dump_failure, ?w'\<lparr>events := [EvDump True two_records]\<rparr>)"
    by simp
  from responds_raises_what_dump_raises
         [OF ret no_resp val, where s = partial_schema and s' = names_schema
            and many = False and data = names_only and errors = id_invalid
            and errors' = "PDict []"]
       partial clean
  have unread: "responds_inner (Some partial_schema) False None records_route empty_request =
                  responds_inner (Some names_schema) False None records_route empty_request
     \<and> (\<exists>r w2. responds_inner (Some partial_schema) False None records_route empty_request =
                 (Inr r, w2))"
    by blast
  from plain carrier unread show ?thesis
    by blast
qed

end
